theory Spec2Isabelle
  imports Main "HOL-Library.Word"
begin

section \<open>Bytes and the little-endian packing of \<^verbatim>\<open>struct.pack\<close>\<close>

text \<open>
  A Python \<^verbatim>\<open>bytes\<close> object is a list of 8-bit words. Python integers are unbounded,
  so every integer of the source is an \<open>int\<close>.
\<close>

type_synonym byte = "8 word"

text \<open>
  The only exception \<^verbatim>\<open>pcm_to_wav\<close> can raise is \<^verbatim>\<open>struct.error\<close>, from a value that
  does not fit the field it is packed into.
\<close>

datatype exn = StructError

text \<open>The \<open>n\<close> low bytes of \<open>v\<close>, least significant first.\<close>

fun le_bytes :: "nat \<Rightarrow> int \<Rightarrow> byte list" where
  "le_bytes 0 v = []"
| "le_bytes (Suc n) v = word_of_int v # le_bytes n (v div 256)"

text \<open>
  \<^verbatim>\<open>struct.pack('<I', v)\<close> and \<^verbatim>\<open>struct.pack('<H', v)\<close>: four, respectively two, bytes
  in little-endian order; a value outside the unsigned range of the field raises
  \<^verbatim>\<open>struct.error\<close>.
\<close>

definition pack_I :: "int \<Rightarrow> exn + byte list" where
  "pack_I v = (if 0 \<le> v \<and> v \<le> 4294967295 then Inr (le_bytes 4 v) else Inl StructError)"

definition pack_H :: "int \<Rightarrow> exn + byte list" where
  "pack_H v = (if 0 \<le> v \<and> v \<le> 65535 then Inr (le_bytes 2 v) else Inl StructError)"

text \<open>
  \<^verbatim>\<open>wav_buffer.write(x)\<close> on the \<^verbatim>\<open>io.BytesIO\<close> buffer: the buffer so far is the first
  argument, the bytes to append the second. Either may already be an exception; the
  statements run in order, so the earlier one wins.
\<close>

definition bio_write :: "exn + byte list \<Rightarrow> exn + byte list \<Rightarrow> exn + byte list" where
  "bio_write buf x =
     (case buf of
        Inl e \<Rightarrow> Inl e
      | Inr b \<Rightarrow> (case x of Inl e \<Rightarrow> Inl e | Inr y \<Rightarrow> Inr (b @ y)))"

text \<open>The four ASCII tags \<^verbatim>\<open>b'RIFF'\<close>, \<^verbatim>\<open>b'WAVE'\<close>, \<^verbatim>\<open>b'fmt '\<close> and \<^verbatim>\<open>b'data'\<close>.\<close>

definition tag_RIFF :: "byte list" where
  "tag_RIFF = [0x52, 0x49, 0x46, 0x46]"

definition tag_WAVE :: "byte list" where
  "tag_WAVE = [0x57, 0x41, 0x56, 0x45]"

definition tag_fmt :: "byte list" where
  "tag_fmt = [0x66, 0x6D, 0x74, 0x20]"

definition tag_data :: "byte list" where
  "tag_data = [0x64, 0x61, 0x74, 0x61]"

section \<open>The container framer \<^verbatim>\<open>pcm_to_wav\<close> (gemini_client.py, lines 238-267)\<close>

definition pcm_to_wav :: "byte list \<Rightarrow> int \<Rightarrow> int \<Rightarrow> int \<Rightarrow> exn + byte list" where
  "pcm_to_wav pcm_data sample_rate channels sample_width =
     (let byte_rate = sample_rate * channels * sample_width;
          block_align = channels * sample_width;
          data_size = int (length pcm_data);
          file_size = 36 + data_size;
          b0 = Inr [];
          b1 = bio_write b0 (Inr tag_RIFF);
          b2 = bio_write b1 (pack_I file_size);
          b3 = bio_write b2 (Inr tag_WAVE);
          b4 = bio_write b3 (Inr tag_fmt);
          b5 = bio_write b4 (pack_I 16);
          b6 = bio_write b5 (pack_H 1);
          b7 = bio_write b6 (pack_H channels);
          b8 = bio_write b7 (pack_I sample_rate);
          b9 = bio_write b8 (pack_I byte_rate);
          b10 = bio_write b9 (pack_H block_align);
          b11 = bio_write b10 (pack_H (sample_width * 8));
          b12 = bio_write b11 (Inr tag_data);
          b13 = bio_write b12 (pack_I data_size)
      in bio_write b13 (Inr pcm_data))"

text \<open>
  Reading a header back: the unsigned little-endian value of a byte string, and the
  field of \<open>n\<close> bytes at offset \<open>off\<close>.
\<close>

fun le_int :: "byte list \<Rightarrow> int" where
  "le_int [] = 0"
| "le_int (b # bs) = uint b + 256 * le_int bs"

definition le_field :: "nat \<Rightarrow> nat \<Rightarrow> byte list \<Rightarrow> int" where
  "le_field off n bs = le_int (take n (drop off bs))"

text \<open>
  The format parameters whose header fields all fit: channels, block align and bits per
  sample in 16 bits, sample rate and byte rate in 32 bits.
\<close>

definition params_fit :: "int \<Rightarrow> int \<Rightarrow> int \<Rightarrow> bool" where
  "params_fit sample_rate channels sample_width =
     (0 \<le> channels \<and> channels \<le> 65535 \<and>
      0 \<le> sample_rate \<and> sample_rate \<le> 4294967295 \<and>
      0 \<le> sample_rate * channels * sample_width \<and>
      sample_rate * channels * sample_width \<le> 4294967295 \<and>
      0 \<le> channels * sample_width \<and> channels * sample_width \<le> 65535 \<and>
      0 \<le> sample_width * 8 \<and> sample_width * 8 \<le> 65535)"

text \<open>The 44 header bytes, when every field fits.\<close>

definition wav_header :: "nat \<Rightarrow> int \<Rightarrow> int \<Rightarrow> int \<Rightarrow> byte list" where
  "wav_header n sample_rate channels sample_width =
     tag_RIFF @ le_bytes 4 (36 + int n) @ tag_WAVE @ tag_fmt @ le_bytes 4 16 @
     le_bytes 2 1 @ le_bytes 2 channels @ le_bytes 4 sample_rate @
     le_bytes 4 (sample_rate * channels * sample_width) @
     le_bytes 2 (channels * sample_width) @ le_bytes 2 (sample_width * 8) @
     tag_data @ le_bytes 4 (int n)"

section \<open>The downstream sink: the client's WebSocket (main.py)\<close>

text \<open>
  The JSON texts the server writes to the client, one constructor per \<^verbatim>\<open>"type"\<close>.
  \<^verbatim>\<open>json.dumps\<close> and \<^verbatim>\<open>base64.b64encode\<close> are injective encodings that cannot fail on these
  values, so a message is kept as its fields; an audio message carries the WAV bytes
  that are base64-encoded into \<^verbatim>\<open>"data"\<close>.
\<close>

datatype client_msg =
    Msg_error string
  | Msg_server_log string string
  | Msg_audio "byte list"
  | Msg_transcript string
  | Msg_assistant_silent
  | Msg_interrupted
  | Msg_session_started

text \<open>
  The socket records what it was sent. Whether a write succeeds is decided by the
  transport, outside the program: \<open>accepts ws n\<close> says whether the \<open>n\<close>-th call of
  \<^verbatim>\<open>send_text\<close> returns (\<open>True\<close>) or raises (\<open>False\<close>). \<open>close_frame\<close> is the code and
  reason of \<^verbatim>\<open>websocket.close\<close>, once called.
\<close>

record websocket =
  accepted :: bool
  sent :: "client_msg list"
  attempts :: nat
  accepts :: "nat \<Rightarrow> bool"
  close_frame :: "(nat \<times> string) option"

text \<open>
  \<^verbatim>\<open>await websocket.send_text(...)\<close>: the flag is \<open>False\<close> when the call raises, which is
  how the transport reports a client that is gone.
\<close>

definition send_text :: "websocket \<Rightarrow> client_msg \<Rightarrow> bool \<times> websocket" where
  "send_text ws m =
     (if accepts ws (attempts ws)
      then (True, ws\<lparr>sent := sent ws @ [m], attempts := Suc (attempts ws)\<rparr>)
      else (False, ws\<lparr>attempts := Suc (attempts ws)\<rparr>))"

section \<open>The response handler \<^verbatim>\<open>handle_gemini_response\<close> (main.py, lines 116-171)\<close>

text \<open>
  The variables of \<^verbatim>\<open>websocket_endpoint\<close> that its closures \<^verbatim>\<open>send_log\<close> and
  \<^verbatim>\<open>handle_gemini_response\<close> read and write (\<^verbatim>\<open>nonlocal\<close>), with the socket.
\<close>

record conn =
  is_connected :: bool
  audio_chunk_count :: int
  audio_buffer :: "byte list"
  sock :: websocket

text \<open>
  The pair \<^verbatim>\<open>(response_type, data)\<close> the handler is called with. The two callers
  (\<^verbatim>\<open>receive_responses_task\<close> and \<^verbatim>\<open>run_gemini\<close>) pass these five types only; any other
  type string matches no branch.
\<close>

datatype response =
    Audio "byte list"
  | Text string
  | Turn_complete
  | Interrupted
  | Error string

definition BUFFER_TARGET_SIZE :: nat where
  "BUFFER_TARGET_SIZE = 48000"

definition OUTPUT_SAMPLE_RATE :: int where
  "OUTPUT_SAMPLE_RATE = 24000"

text \<open>
  One \<^verbatim>\<open>await websocket.send_text(json.dumps(...))\<close> inside the handler's \<^verbatim>\<open>try\<close>. The
  flag is \<open>False\<close> when the statement raises.
\<close>

definition send_json :: "client_msg \<Rightarrow> conn \<Rightarrow> bool \<times> conn" where
  "send_json m c = (case send_text (sock c) m of (ok, ws) \<Rightarrow> (ok, c\<lparr>sock := ws\<rparr>))"

text \<open>
  The three statements that stand both at lines 135-140 and at lines 152-157: frame the
  whole buffer, send it, then replace the buffer by an empty one. An exception of
  \<^verbatim>\<open>pcm_to_wav\<close> or of the send leaves the buffer as it was.
\<close>

definition flush_buffer :: "conn \<Rightarrow> bool \<times> conn" where
  "flush_buffer c =
     (case pcm_to_wav (audio_buffer c) OUTPUT_SAMPLE_RATE 1 2 of
        Inl e \<Rightarrow> (False, c)
      | Inr wav_data \<Rightarrow>
          (case send_json (Msg_audio wav_data) c of
             (True, c') \<Rightarrow> (True, c'\<lparr>audio_buffer := []\<rparr>)
           | (False, c') \<Rightarrow> (False, c')))"

text \<open>The body of the \<^verbatim>\<open>try\<close>: the flag is \<open>False\<close> when it ends by an exception.\<close>

fun handler_body :: "response \<Rightarrow> conn \<Rightarrow> bool \<times> conn" where
  "handler_body (Audio data) c =
     (let c1 = c\<lparr>audio_chunk_count := audio_chunk_count c + 1,
                  audio_buffer := audio_buffer c @ data\<rparr>
      in if length (audio_buffer c1) \<ge> BUFFER_TARGET_SIZE then flush_buffer c1
         else (True, c1))"
| "handler_body (Text data) c = send_json (Msg_transcript data) c"
| "handler_body Turn_complete c =
     (case (if length (audio_buffer c) > 0 then flush_buffer c else (True, c)) of
        (True, c1) \<Rightarrow> send_json Msg_assistant_silent c1
      | (False, c1) \<Rightarrow> (False, c1))"
| "handler_body Interrupted c = send_json Msg_interrupted c"
| "handler_body (Error data) c = send_json (Msg_error data) c"

definition handle_gemini_response :: "response \<Rightarrow> conn \<Rightarrow> conn" where
  "handle_gemini_response r c =
     (if \<not> is_connected c then c
      else (case handler_body r c of
              (True, c') \<Rightarrow> c'
            | (False, c') \<Rightarrow> c'\<lparr>is_connected := False\<rparr>))"

text \<open>The handler called on a sequence of responses, in order.\<close>

fun relay :: "response list \<Rightarrow> conn \<Rightarrow> conn" where
  "relay [] c = c"
| "relay (r # rs) c = relay rs (handle_gemini_response r c)"

text \<open>
  \<^verbatim>\<open>send_log\<close> (lines 103-114): nothing when disconnected; an exception of the write is
  swallowed by the bare \<^verbatim>\<open>except\<close>.
\<close>

definition send_log :: "string \<Rightarrow> string \<Rightarrow> conn \<Rightarrow> conn" where
  "send_log message level c =
     (if \<not> is_connected c then c
      else c\<lparr>sock := snd (send_text (sock c) (Msg_server_log message level))\<rparr>)"

text \<open>
  The state at line 101: an accepted socket that was written nothing yet and whose
  transport behaves as \<open>acc\<close>, the connection up, no chunk counted, the buffer empty.
\<close>

definition fresh_socket :: "(nat \<Rightarrow> bool) \<Rightarrow> websocket" where
  "fresh_socket acc =
     \<lparr>accepted = True, sent = [], attempts = 0, accepts = acc, close_frame = None\<rparr>"

definition fresh_conn :: "(nat \<Rightarrow> bool) \<Rightarrow> conn" where
  "fresh_conn acc =
     \<lparr>is_connected = True, audio_chunk_count = 0, audio_buffer = [], sock = fresh_socket acc\<rparr>"

text \<open>
  What the claims observe: all audio bytes of a sequence of responses in arrival order,
  and the PCM payloads (the bytes after the 44-byte header) of the audio messages of a
  sequence of sink messages, concatenated in emission order.
\<close>

fun audio_bytes :: "response list \<Rightarrow> byte list" where
  "audio_bytes [] = []"
| "audio_bytes (Audio data # rs) = data @ audio_bytes rs"
| "audio_bytes (r # rs) = audio_bytes rs"

fun pcm_payloads :: "client_msg list \<Rightarrow> byte list" where
  "pcm_payloads [] = []"
| "pcm_payloads (Msg_audio w # ms) = drop 44 w @ pcm_payloads ms"
| "pcm_payloads (m # ms) = pcm_payloads ms"

section \<open>Strings\<close>

text \<open>
  A Python \<^verbatim>\<open>str\<close> is kept as its UTF-8 bytes. The needles the source looks for are
  ASCII, and an ASCII byte never occurs inside a multi-byte UTF-8 sequence, so
  \<^verbatim>\<open>needle in s\<close> is the search for a contiguous run of bytes.
\<close>

fun starts_with :: "string \<Rightarrow> string \<Rightarrow> bool" where
  "starts_with [] s = True"
| "starts_with (p # ps) [] = False"
| "starts_with (p # ps) (c # cs) = (p = c \<and> starts_with ps cs)"

fun py_in :: "string \<Rightarrow> string \<Rightarrow> bool" where
  "py_in needle [] = (needle = [])"
| "py_in needle (c # cs) = (starts_with needle (c # cs) \<or> py_in needle cs)"

text \<open>
  \<^verbatim>\<open>str.lower\<close>, on the ASCII letters. No character outside ASCII lowers to one of the
  letters of \<^verbatim>\<open>"cancelled"\<close>, the only needle searched in a lowered string.
\<close>

definition lower_char :: "char \<Rightarrow> char" where
  "lower_char c =
     (if 65 \<le> (of_char c :: nat) \<and> (of_char c :: nat) \<le> 90
      then char_of ((of_char c :: nat) + 32) else c)"

definition lower :: "string \<Rightarrow> string" where
  "lower s = map lower_char s"

text \<open>
  The test \<^verbatim>\<open>"1008" in error_str or "ConnectionClosed" in error_str\<close>, which stands in
  both loops (gemini_client.py, lines 135 and 186).
\<close>

definition closed_signature :: "string \<Rightarrow> bool" where
  "closed_signature error_str =
     (py_in ''1008'' error_str \<or> py_in ''ConnectionClosed'' error_str)"

text \<open>The UTF-8 bytes of the two symbols that open the log texts: U+274C, and U+26A0 U+FE0F.\<close>

definition cross_mark :: string where
  "cross_mark = [char_of (0xE2 :: nat), char_of (0x9D :: nat), char_of (0x8C :: nat)]"

definition warning_sign :: string where
  "warning_sign =
     [char_of (0xE2 :: nat), char_of (0x9A :: nat), char_of (0xA0 :: nat),
      char_of (0xEF :: nat), char_of (0xB8 :: nat), char_of (0x8F :: nat)]"

section \<open>The session of \<^verbatim>\<open>run_gemini_session\<close> (gemini_client.py, lines 56-235)\<close>

text \<open>
  What a loop asks of its two callbacks: \<^verbatim>\<open>await response_callback(type, data)\<close> and
  \<^verbatim>\<open>await log(msg, level)\<close>. In this program (main.py, line 181) the first is
  \<^verbatim>\<open>handle_gemini_response\<close> and the second \<^verbatim>\<open>send_log\<close>; neither raises.
\<close>

datatype act = Callback response | Log string string

fun deliver :: "act list \<Rightarrow> conn \<Rightarrow> conn" where
  "deliver [] c = c"
| "deliver (Callback r # as) c = deliver as (handle_gemini_response r c)"
| "deliver (Log message level # as) c = deliver as (send_log message level c)"

text \<open>
  The state the two loops share and their own counters: the shutdown event, the queue
  of chunks from the client (\<open>None\<close> is the sentinel), the chunks the remote session was
  sent, \<^verbatim>\<open>chunks_sent\<close> of the send task and \<^verbatim>\<open>turn_count\<close> of the receive task.
\<close>

record session =
  shutdown_event :: bool
  audio_queue :: "byte list option list"
  remote_in :: "byte list list"
  chunks_sent :: int
  turn_count :: int

text \<open>The session when its tasks are created: nothing queued, nothing sent, no turn.\<close>

definition fresh_session :: session where
  "fresh_session =
     \<lparr>shutdown_event = False, audio_queue = [], remote_in = [], chunks_sent = 0,
      turn_count = 0\<rparr>"

text \<open>Whether a loop goes on to its next iteration or is left.\<close>

datatype control = Continue | Break

subsection \<open>The outbound send loop \<^verbatim>\<open>send_audio_task\<close> (lines 102-139)\<close>

text \<open>
  What \<^verbatim>\<open>await session.send(...)\<close> does is decided by the remote side: it returns, it
  raises an exception whose \<^verbatim>\<open>str\<close> is given, or the task is cancelled while it waits.
\<close>

datatype send_result = Send_ok | Send_raises string | Send_cancelled

text \<open>
  One pass through the body of the \<^verbatim>\<open>while\<close>. \<open>wait_cancelled\<close> says that the task is
  cancelled while it waits for the queue. An empty queue is the \<^verbatim>\<open>TimeoutError\<close> of
  \<^verbatim>\<open>wait_for\<close> after 0.5 s: chunks that arrive during the wait are in the queue of the
  state the pass starts from.
\<close>

definition send_audio_iteration ::
  "bool \<Rightarrow> send_result \<Rightarrow> session \<Rightarrow> control \<times> act list \<times> session" where
  "send_audio_iteration wait_cancelled result s =
     (if wait_cancelled then (Break, [], s)
      else case audio_queue s of
        [] \<Rightarrow> (Continue, [], s)
      | None # q \<Rightarrow> (Break, [], s\<lparr>audio_queue := q\<rparr>)
      | Some audio_data # q \<Rightarrow>
          (case result of
             Send_ok \<Rightarrow>
               (Continue, [],
                s\<lparr>audio_queue := q, remote_in := remote_in s @ [audio_data],
                  chunks_sent := chunks_sent s + 1\<rparr>)
           | Send_cancelled \<Rightarrow> (Break, [], s\<lparr>audio_queue := q\<rparr>)
           | Send_raises error_str \<Rightarrow>
               if closed_signature error_str
               then (Break, [Log (cross_mark @ '' Gemini connection closed'') ''error''],
                     s\<lparr>audio_queue := q, shutdown_event := True\<rparr>)
               else (Continue,
                     [Log (cross_mark @ '' Error sending audio: '' @ error_str) ''error''],
                     s\<lparr>audio_queue := q\<rparr>)))"

text \<open>The test of the \<^verbatim>\<open>while\<close>, then the body.\<close>

definition send_audio_step ::
  "bool \<Rightarrow> send_result \<Rightarrow> session \<Rightarrow> control \<times> act list \<times> session" where
  "send_audio_step wait_cancelled result s =
     (if shutdown_event s then (Break, [], s)
      else send_audio_iteration wait_cancelled result s)"

subsection \<open>The inbound receive loop \<^verbatim>\<open>receive_responses_task\<close> (lines 141-200)\<close>

text \<open>
  A remote event, as far as the loop reads it: \<^verbatim>\<open>response.server_content\<close> (\<open>None\<close> when
  absent) with its \<^verbatim>\<open>interrupted\<close> flag, its \<^verbatim>\<open>model_turn.parts\<close> (\<open>None\<close> when there is
  no model turn) and its \<^verbatim>\<open>turn_complete\<close> flag; a part has \<^verbatim>\<open>inline_data\<close> (its bytes) and
  \<^verbatim>\<open>text\<close>, each possibly absent.
\<close>

datatype part = Part (inline_data: "byte list option") (part_text: "string option")

datatype server_content =
  Server_content (interrupted: bool) (model_turn: "part list option") (turn_complete: bool)

text \<open>The callbacks of one part (lines 162-170): an empty text is falsy and is skipped.\<close>

definition part_callbacks :: "part \<Rightarrow> response list" where
  "part_callbacks p =
     (case inline_data p of None \<Rightarrow> [] | Some data \<Rightarrow> [Audio data]) @
     (case part_text p of
        None \<Rightarrow> []
      | Some t \<Rightarrow> if t = [] then [] else [Text t])"

text \<open>
  The body of the \<^verbatim>\<open>async for\<close> on one event (lines 152-175): the callbacks, in order,
  and the new \<^verbatim>\<open>turn_count\<close>. An interrupted event \<^verbatim>\<open>continue\<close>s before its parts and its
  turn-complete flag are read.
\<close>

definition on_response :: "server_content option \<Rightarrow> int \<Rightarrow> response list \<times> int" where
  "on_response r tc =
     (case r of
        None \<Rightarrow> ([], tc)
      | Some content \<Rightarrow>
          if interrupted content then ([Interrupted], tc)
          else
            (let cbs = (case model_turn content of
                          None \<Rightarrow> []
                        | Some parts \<Rightarrow> concat (map part_callbacks parts))
             in if turn_complete content then (cbs @ [Turn_complete], tc + 1)
                else (cbs, tc)))"

text \<open>
  What \<^verbatim>\<open>session.receive()\<close> gives next: an event, the end of the iterator, an exception
  whose \<^verbatim>\<open>str\<close> is given, or the cancellation of the task.
\<close>

datatype recv_event =
    Response "server_content option"
  | Iterator_end
  | Receive_raises string
  | Receive_cancelled

text \<open>
  One step of the loop from the test of the outer \<^verbatim>\<open>while\<close>. With the shutdown event set
  the loop is left without a callback, whether the event is seen at the \<^verbatim>\<open>while\<close>, at
  the check of line 149 or at the one of line 178. The outer \<^verbatim>\<open>except Exception\<close> of line
  196 is reached only by an exception of the log callback, and \<^verbatim>\<open>send_log\<close> raises none.
\<close>

definition receive_step :: "recv_event \<Rightarrow> session \<Rightarrow> control \<times> act list \<times> session" where
  "receive_step ev s =
     (if shutdown_event s then (Break, [], s)
      else case ev of
        Response r \<Rightarrow>
          (case on_response r (turn_count s) of
             (cbs, tc) \<Rightarrow> (Continue, map Callback cbs, s\<lparr>turn_count := tc\<rparr>))
      | Iterator_end \<Rightarrow> (Continue, [], s)
      | Receive_cancelled \<Rightarrow> (Break, [], s)
      | Receive_raises error_str \<Rightarrow>
          if py_in ''cancelled'' (lower error_str) then (Break, [], s)
          else if closed_signature error_str
          then (Break, [Log (cross_mark @ '' Gemini connection lost'') ''error''],
                s\<lparr>shutdown_event := True\<rparr>)
          else (Continue,
                [Log (warning_sign @ '' Receive error: '' @ error_str) ''warn''], s))"

text \<open>
  The loop running by itself over what the remote side gives, every callback and log
  delivered as it is asked for.
\<close>

fun receive_responses_task :: "recv_event list \<Rightarrow> session \<Rightarrow> conn \<Rightarrow> session \<times> conn" where
  "receive_responses_task [] s c = (s, c)"
| "receive_responses_task (ev # evs) s c =
     (case receive_step ev s of
        (Break, as, s') \<Rightarrow> (s', deliver as c)
      | (Continue, as, s') \<Rightarrow> receive_responses_task evs s' (deliver as c))"

subsection \<open>The coordinator (lines 202-235)\<close>

text \<open>
  An \<^verbatim>\<open>asyncio\<close> task is running or done; a done task returned, failed with an exception
  (its \<^verbatim>\<open>str\<close>) or was cancelled. The loops catch what is raised inside their \<^verbatim>\<open>try\<close> blocks;
  a task fails by an exception raised outside of them (in a handler or before the loop),
  the case the coordinator tests with \<^verbatim>\<open>task.exception()\<close>. How a task ends is given
  from outside.
\<close>

datatype task_id = Send_task | Receive_task | Gemini_task

datatype outcome = Returned | Failed string | Cancelled

datatype task_state = Running | Done outcome

text \<open>
  \<^verbatim>\<open>task.exception()\<close> in the scan of \<^verbatim>\<open>done\<close> (lines 213-217): a failed task is found
  (the scan sets the shutdown event and stops), the call raises \<^verbatim>\<open>CancelledError\<close> on a
  cancelled task, or the scan ends.
\<close>

datatype scan = Scan_clean | Scan_failed | Scan_cancelled

fun scan_done :: "task_state list \<Rightarrow> scan" where
  "scan_done [] = Scan_clean"
| "scan_done (Done (Failed e) # ts) = Scan_failed"
| "scan_done (Done Cancelled # ts) = Scan_cancelled"
| "scan_done (t # ts) = scan_done ts"

text \<open>
  What happens to the coordinator between two tests of its \<^verbatim>\<open>while\<close>: the shutdown event
  is set from outside; the coordinator is cancelled while in \<^verbatim>\<open>asyncio.wait\<close>; or the wait
  returns, with the states of the send task and of the receive task, and whether the set
  \<^verbatim>\<open>done\<close> lists the send task first.
\<close>

datatype coord_event =
    Shutdown_requested
  | Wait_cancelled
  | Wait_returned task_state task_state bool

text \<open>The body of the \<^verbatim>\<open>while\<close> (lines 207-220) on a returned wait.\<close>

definition supervise_iteration ::
  "task_state \<Rightarrow> task_state \<Rightarrow> bool \<Rightarrow> bool \<Rightarrow> control \<times> bool" where
  "supervise_iteration send_task receive_task send_first shutdown =
     (let tasks = (if send_first then [send_task, receive_task]
                   else [receive_task, send_task]);
          done = filter (\<lambda>t. t \<noteq> Running) tasks;
          pending = filter (\<lambda>t. t = Running) tasks
      in case scan_done done of
           Scan_cancelled \<Rightarrow> (Break, shutdown)
         | Scan_failed \<Rightarrow> (if done \<noteq> [] \<and> pending = [] then Break else Continue, True)
         | Scan_clean \<Rightarrow> (if done \<noteq> [] \<and> pending = [] then Break else Continue, shutdown))"

text \<open>
  The loop of lines 206-223 over what happens to it: \<open>Some\<close> of the shutdown event when
  the loop is left, \<open>None\<close> when it still runs after the last of the given events.
\<close>

fun supervise :: "coord_event list \<Rightarrow> bool \<Rightarrow> bool option" where
  "supervise evs True = Some True"
| "supervise [] False = None"
| "supervise (Shutdown_requested # evs) False = supervise evs True"
| "supervise (Wait_cancelled # evs) False = Some False"
| "supervise (Wait_returned ts tr send_first # evs) False =
     (case supervise_iteration ts tr send_first False of
        (Break, shutdown) \<Rightarrow> Some shutdown
      | (Continue, shutdown) \<Rightarrow> supervise evs shutdown)"

text \<open>What the teardown does, in order, as far as the claims read it.\<close>

datatype effect =
    Set_shutdown
  | Cancel_task task_id
  | Await_task task_id
  | Close_connection

text \<open>
  \<^verbatim>\<open>await task\<close> inside \<^verbatim>\<open>try ... except asyncio.CancelledError: pass\<close>: the exception of a
  failed task is raised again and is not caught; a cancellation is swallowed.
\<close>

definition await_swallowing :: "outcome \<Rightarrow> string option" where
  "await_swallowing r = (case r of Failed e \<Rightarrow> Some e | _ \<Rightarrow> None)"

text \<open>
  The \<^verbatim>\<open>finally\<close> of lines 224-233, given how each task ends once cancelled: what is done,
  and the exception that leaves the block, if any.
\<close>

definition teardown :: "outcome \<Rightarrow> outcome \<Rightarrow> effect list \<times> string option" where
  "teardown send_end receive_end =
     (let begun = [Set_shutdown, Cancel_task Send_task, Cancel_task Receive_task,
                   Await_task Send_task]
      in case await_swallowing send_end of
           Some e \<Rightarrow> (begun, Some e)
         | None \<Rightarrow> (begun @ [Await_task Receive_task], await_swallowing receive_end))"

text \<open>
  The session from the creation of the two tasks to the end of the \<^verbatim>\<open>async with\<close>, which
  closes the remote connection whether or not an exception leaves the block: \<open>None\<close>
  while the coordinator still loops, else what was done and the exception that leaves
  \<^verbatim>\<open>run_gemini_session\<close>, if any.
\<close>

definition session_end ::
  "coord_event list \<Rightarrow> bool \<Rightarrow> outcome \<Rightarrow> outcome \<Rightarrow> (effect list \<times> string option) option" where
  "session_end evs shutdown send_end receive_end =
     (case supervise evs shutdown of
        None \<Rightarrow> None
      | Some sd \<Rightarrow>
          (case teardown send_end receive_end of
             (done, exc) \<Rightarrow> Some (done @ [Close_connection], exc)))"

text \<open>
  The end of \<^verbatim>\<open>run_gemini\<close> (main.py, lines 182-187), given the exception that left
  \<^verbatim>\<open>run_gemini_session\<close>, if any.
\<close>

definition run_gemini_end :: "string option \<Rightarrow> conn \<Rightarrow> conn" where
  "run_gemini_end exc c =
     (case exc of
        None \<Rightarrow> send_log ''Gemini session ended'' ''warn'' c
      | Some error_msg \<Rightarrow>
          handle_gemini_response (Error error_msg)
            (send_log (''Gemini error: '' @ error_msg) ''error'' c))"

section \<open>The endpoint \<^verbatim>\<open>websocket_endpoint\<close> (main.py, lines 70-240)\<close>

text \<open>
  How the endpoint comes to its message loop, or does not. With no key it writes the
  error and closes; when that write raises, the exception leaves the endpoint before
  the close. With a key it creates the queue, the shutdown event and the task that runs
  the Gemini session, then writes \<^verbatim>\<open>session_started\<close>; when that write raises, the
  exception leaves the endpoint with the task created.
\<close>

datatype endpoint_start =
    Config_refused websocket
  | Refusal_raised websocket
  | Session_started conn session
  | Start_raised conn session

definition websocket_endpoint_open :: "string \<Rightarrow> websocket \<Rightarrow> endpoint_start" where
  "websocket_endpoint_open GEMINI_API_KEY ws0 =
     (let ws = ws0\<lparr>accepted := True\<rparr>
      in if GEMINI_API_KEY = [] then
           (case send_text ws (Msg_error ''GEMINI_API_KEY not configured on server'') of
              (True, ws') \<Rightarrow>
                Config_refused (ws'\<lparr>close_frame := Some (1011, ''API key not configured'')\<rparr>)
            | (False, ws') \<Rightarrow> Refusal_raised ws')
         else
           (let s = fresh_session;
                c = \<lparr>is_connected = True, audio_chunk_count = 0, audio_buffer = [],
                     sock = ws\<rparr>
            in case send_json Msg_session_started c of
                 (True, c') \<Rightarrow> Session_started c' s
               | (False, c') \<Rightarrow> Start_raised c' s))"

text \<open>What a start left behind: whether the session's task, queue and event exist, and the socket.\<close>

fun creates_session :: "endpoint_start \<Rightarrow> bool" where
  "creates_session (Config_refused ws) = False"
| "creates_session (Refusal_raised ws) = False"
| "creates_session (Session_started c s) = True"
| "creates_session (Start_raised c s) = True"

fun socket_of :: "endpoint_start \<Rightarrow> websocket" where
  "socket_of (Config_refused ws) = ws"
| "socket_of (Refusal_raised ws) = ws"
| "socket_of (Session_started c s) = sock c"
| "socket_of (Start_raised c s) = sock c"


section \<open>Facts about packing\<close>

lemma length_le_bytes [simp]: "length (le_bytes n v) = n"
  by (induction n arbitrary: v) simp_all

lemma le_int_le_bytes: "0 \<le> v \<Longrightarrow> v < 256 ^ n \<Longrightarrow> le_int (le_bytes n v) = v"
proof (induction n arbitrary: v)
  case 0
  then show ?case by simp
next
  case (Suc n)
  have lo: "0 \<le> v div 256" using Suc.prems(1) by simp
  have hi: "v div 256 < 256 ^ n" using Suc.prems(2) by simp
  have "uint (word_of_int v :: byte) = v mod 256"
    by (simp add: uint_word_of_int)
  with Suc.IH [OF lo hi] show ?case by simp
qed

lemma bio_write_simps [simp]:
  "bio_write (Inl e) x = Inl e"
  "bio_write (Inr b) (Inl e) = Inl e"
  "bio_write (Inr b) (Inr y) = Inr (b @ y)"
  by (simp_all add: bio_write_def)

lemma pcm_to_wav_eq:
  "pcm_to_wav pcm sr ch sw =
     (if int (length pcm) \<le> 4294967259 \<and> params_fit sr ch sw
      then Inr (wav_header (length pcm) sr ch sw @ pcm) else Inl StructError)"
  by (simp add: pcm_to_wav_def pack_I_def pack_H_def params_fit_def wav_header_def Let_def)

lemma length_tags [simp]:
  "length tag_RIFF = 4" "length tag_WAVE = 4" "length tag_fmt = 4" "length tag_data = 4"
  by (simp_all add: tag_RIFF_def tag_WAVE_def tag_fmt_def tag_data_def)

lemma length_wav_header [simp]: "length (wav_header n sr ch sw) = 44"
  by (simp add: wav_header_def)

lemma le_field_at:
  "length pre = off \<Longrightarrow> length x = n \<Longrightarrow> le_field off n (pre @ x @ post) = le_int x"
  by (simp add: le_field_def)

lemma le_int_le_bytes4: "0 \<le> v \<Longrightarrow> v \<le> 4294967295 \<Longrightarrow> le_int (le_bytes 4 v) = v"
  by (rule le_int_le_bytes) simp_all

lemma le_int_le_bytes2: "0 \<le> v \<Longrightarrow> v \<le> 65535 \<Longrightarrow> le_int (le_bytes 2 v) = v"
  by (rule le_int_le_bytes) simp_all

lemma header_file_size:
  "le_field 4 4 (wav_header n sr ch sw @ pcm) = le_int (le_bytes 4 (36 + int n))"
  unfolding wav_header_def append_assoc
  by (rule le_field_at [where pre = tag_RIFF, simplified append_assoc]) simp_all

lemma header_data_size:
  "le_field 40 4 (wav_header n sr ch sw @ pcm) = le_int (le_bytes 4 (int n))"
proof -
  have "le_field 40 4 ((tag_RIFF @ le_bytes 4 (36 + int n) @ tag_WAVE @ tag_fmt @ le_bytes 4 16 @
     le_bytes 2 1 @ le_bytes 2 ch @ le_bytes 4 sr @ le_bytes 4 (sr * ch * sw) @
     le_bytes 2 (ch * sw) @ le_bytes 2 (sw * 8) @ tag_data) @ le_bytes 4 (int n) @ pcm)
     = le_int (le_bytes 4 (int n))"
    by (rule le_field_at) simp_all
  then show ?thesis by (simp add: wav_header_def)
qed

lemma header_channels:
  "le_field 22 2 (wav_header n sr ch sw @ pcm) = le_int (le_bytes 2 ch)"
proof -
  have "le_field 22 2 ((tag_RIFF @ le_bytes 4 (36 + int n) @ tag_WAVE @ tag_fmt @ le_bytes 4 16 @
     le_bytes 2 1) @ le_bytes 2 ch @ (le_bytes 4 sr @ le_bytes 4 (sr * ch * sw) @
     le_bytes 2 (ch * sw) @ le_bytes 2 (sw * 8) @ tag_data @ le_bytes 4 (int n) @ pcm))
     = le_int (le_bytes 2 ch)"
    by (rule le_field_at) simp_all
  then show ?thesis by (simp add: wav_header_def)
qed

lemma header_sample_rate:
  "le_field 24 4 (wav_header n sr ch sw @ pcm) = le_int (le_bytes 4 sr)"
proof -
  have "le_field 24 4 ((tag_RIFF @ le_bytes 4 (36 + int n) @ tag_WAVE @ tag_fmt @ le_bytes 4 16 @
     le_bytes 2 1 @ le_bytes 2 ch) @ le_bytes 4 sr @ (le_bytes 4 (sr * ch * sw) @
     le_bytes 2 (ch * sw) @ le_bytes 2 (sw * 8) @ tag_data @ le_bytes 4 (int n) @ pcm))
     = le_int (le_bytes 4 sr)"
    by (rule le_field_at) simp_all
  then show ?thesis by (simp add: wav_header_def)
qed

lemma header_byte_rate:
  "le_field 28 4 (wav_header n sr ch sw @ pcm) = le_int (le_bytes 4 (sr * ch * sw))"
proof -
  have "le_field 28 4 ((tag_RIFF @ le_bytes 4 (36 + int n) @ tag_WAVE @ tag_fmt @ le_bytes 4 16 @
     le_bytes 2 1 @ le_bytes 2 ch @ le_bytes 4 sr) @ le_bytes 4 (sr * ch * sw) @
     (le_bytes 2 (ch * sw) @ le_bytes 2 (sw * 8) @ tag_data @ le_bytes 4 (int n) @ pcm))
     = le_int (le_bytes 4 (sr * ch * sw))"
    by (rule le_field_at) simp_all
  then show ?thesis by (simp add: wav_header_def)
qed

lemma header_block_align:
  "le_field 32 2 (wav_header n sr ch sw @ pcm) = le_int (le_bytes 2 (ch * sw))"
proof -
  have "le_field 32 2 ((tag_RIFF @ le_bytes 4 (36 + int n) @ tag_WAVE @ tag_fmt @ le_bytes 4 16 @
     le_bytes 2 1 @ le_bytes 2 ch @ le_bytes 4 sr @ le_bytes 4 (sr * ch * sw)) @
     le_bytes 2 (ch * sw) @ (le_bytes 2 (sw * 8) @ tag_data @ le_bytes 4 (int n) @ pcm))
     = le_int (le_bytes 2 (ch * sw))"
    by (rule le_field_at) simp_all
  then show ?thesis by (simp add: wav_header_def)
qed

lemma header_bits:
  "le_field 34 2 (wav_header n sr ch sw @ pcm) = le_int (le_bytes 2 (sw * 8))"
proof -
  have "le_field 34 2 ((tag_RIFF @ le_bytes 4 (36 + int n) @ tag_WAVE @ tag_fmt @ le_bytes 4 16 @
     le_bytes 2 1 @ le_bytes 2 ch @ le_bytes 4 sr @ le_bytes 4 (sr * ch * sw) @
     le_bytes 2 (ch * sw)) @ le_bytes 2 (sw * 8) @ (tag_data @ le_bytes 4 (int n) @ pcm))
     = le_int (le_bytes 2 (sw * 8))"
    by (rule le_field_at) simp_all
  then show ?thesis by (simp add: wav_header_def)
qed

section \<open>Facts about the handler and the loops\<close>

lemma pcm_payloads_append [simp]:
  "pcm_payloads (xs @ ys) = pcm_payloads xs @ pcm_payloads ys"
  by (induction xs rule: pcm_payloads.induct) simp_all

lemma audio_bytes_append [simp]:
  "audio_bytes (xs @ ys) = audio_bytes xs @ audio_bytes ys"
  by (induction xs rule: audio_bytes.induct) simp_all

lemma send_json_True:
  "send_json m c = (True, c') \<Longrightarrow>
     sent (sock c') = sent (sock c) @ [m] \<and> audio_buffer c' = audio_buffer c \<and>
     is_connected c' = is_connected c \<and> accepts (sock c) (attempts (sock c))"
  by (auto simp: send_json_def send_text_def split: if_splits)

lemma send_json_False:
  "send_json m c = (False, c') \<Longrightarrow>
     sent (sock c') = sent (sock c) \<and> audio_buffer c' = audio_buffer c \<and>
     is_connected c' = is_connected c"
  by (auto simp: send_json_def send_text_def split: if_splits)

lemma flush_buffer_True:
  assumes "flush_buffer c = (True, c')"
  shows "sent (sock c') =
           sent (sock c) @ [Msg_audio (wav_header (length (audio_buffer c)) 24000 1 2 @ audio_buffer c)]
         \<and> audio_buffer c' = [] \<and> is_connected c' = is_connected c"
  using assms
  by (auto simp: flush_buffer_def OUTPUT_SAMPLE_RATE_def pcm_to_wav_eq
      split: if_splits prod.splits bool.splits dest!: send_json_True)

lemma flush_buffer_False:
  assumes "flush_buffer c = (False, c')"
  shows "sent (sock c') = sent (sock c) \<and> audio_buffer c' = audio_buffer c \<and>
         is_connected c' = is_connected c"
  using assms
  by (auto simp: flush_buffer_def OUTPUT_SAMPLE_RATE_def pcm_to_wav_eq
      split: if_splits prod.splits bool.splits dest!: send_json_False)

text \<open>What one call that ends normally does.\<close>

lemma handler_body_True:
  assumes "handler_body r c = (True, c')"
  shows "is_connected c' = is_connected c \<and>
         (\<exists>out. sent (sock c') = sent (sock c) @ out \<and>
            pcm_payloads out @ audio_buffer c' = audio_buffer c @ audio_bytes [r] \<and>
            (\<forall>w. Msg_audio w \<in> set out \<longrightarrow> 1 \<le> length (drop 44 w)) \<and>
            (length (audio_buffer c) < 48000 \<longrightarrow> length (audio_buffer c') < 48000))"
proof (cases r)
  case (Audio d)
  show ?thesis
  proof (cases "length (audio_buffer c @ d) \<ge> 48000")
    case True
    with assms Audio have
      "flush_buffer (c\<lparr>audio_chunk_count := audio_chunk_count c + 1,
                       audio_buffer := audio_buffer c @ d\<rparr>) = (True, c')"
      by (simp add: BUFFER_TARGET_SIZE_def Let_def)
    from flush_buffer_True [OF this] True Audio show ?thesis by simp
  next
    case False
    with assms Audio show ?thesis by (auto simp: BUFFER_TARGET_SIZE_def Let_def)
  qed
next
  case (Text t)
  with assms send_json_True [of "Msg_transcript t" c c'] show ?thesis by simp
next
  case Turn_complete
  show ?thesis
  proof (cases "audio_buffer c = []")
    case True
    with assms Turn_complete send_json_True [of Msg_assistant_silent c c'] show ?thesis
      by simp
  next
    case False
    with assms Turn_complete obtain c1 where
      f: "flush_buffer c = (True, c1)" and s: "send_json Msg_assistant_silent c1 = (True, c')"
      by (auto split: prod.splits bool.splits)
    have ne: "Suc 0 \<le> length (audio_buffer c)"
      using False by (cases "audio_buffer c") simp_all
    from flush_buffer_True [OF f] send_json_True [OF s] ne Turn_complete
    show ?thesis by simp
  qed
next
  case Interrupted
  with assms send_json_True [of Msg_interrupted c c'] show ?thesis by simp
next
  case (Error m)
  with assms send_json_True [of "Msg_error m" c c'] show ?thesis by simp
qed

lemma handle_connected:
  assumes "is_connected (handle_gemini_response r c)"
  shows "is_connected c \<and> handler_body r c = (True, handle_gemini_response r c)"
  using assms
  by (auto simp: handle_gemini_response_def split: if_splits prod.splits bool.splits)

lemma relay_append [simp]: "relay (xs @ ys) c = relay ys (relay xs c)"
  by (induction xs arbitrary: c) simp_all

lemma relay_connected: "is_connected (relay rs c) \<Longrightarrow> is_connected c"
  by (induction rs arbitrary: c) (auto dest: handle_connected)

lemma relay_conserves:
  assumes "is_connected (relay rs c)"
  shows "\<exists>out. sent (sock (relay rs c)) = sent (sock c) @ out \<and>
            pcm_payloads out @ audio_buffer (relay rs c) = audio_buffer c @ audio_bytes rs \<and>
            (\<forall>w. Msg_audio w \<in> set out \<longrightarrow> 1 \<le> length (drop 44 w)) \<and>
            (length (audio_buffer c) < 48000 \<longrightarrow> length (audio_buffer (relay rs c)) < 48000)"
  using assms
proof (induction rs arbitrary: c)
  case Nil
  then show ?case by simp
next
  case (Cons r rs)
  let ?c1 = "handle_gemini_response r c"
  from Cons.prems have conn: "is_connected (relay rs ?c1)" by simp
  from relay_connected [OF conn] have c1: "is_connected ?c1" .
  from handle_connected [OF c1] have body: "handler_body r c = (True, ?c1)" by simp
  from handler_body_True [OF body] obtain o1 where
    o1: "sent (sock ?c1) = sent (sock c) @ o1"
      "pcm_payloads o1 @ audio_buffer ?c1 = audio_buffer c @ audio_bytes [r]"
      "\<forall>w. Msg_audio w \<in> set o1 \<longrightarrow> 1 \<le> length (drop 44 w)"
      "length (audio_buffer c) < 48000 \<longrightarrow> length (audio_buffer ?c1) < 48000"
    by blast
  from Cons.IH [OF conn] obtain o2 where
    o2: "sent (sock (relay rs ?c1)) = sent (sock ?c1) @ o2"
      "pcm_payloads o2 @ audio_buffer (relay rs ?c1) = audio_buffer ?c1 @ audio_bytes rs"
      "\<forall>w. Msg_audio w \<in> set o2 \<longrightarrow> 1 \<le> length (drop 44 w)"
      "length (audio_buffer ?c1) < 48000 \<longrightarrow> length (audio_buffer (relay rs ?c1)) < 48000"
    by blast
  have ab: "audio_bytes (r # rs) = audio_bytes [r] @ audio_bytes rs"
    using audio_bytes_append [of "[r]" rs] by simp
  have "pcm_payloads (o1 @ o2) @ audio_buffer (relay rs ?c1)
          = audio_buffer c @ audio_bytes (r # rs)"
    using o1(2) o2(2) ab by (metis append.assoc pcm_payloads_append)
  with o1 o2 show ?case
    by (intro exI [of _ "o1 @ o2"]) auto
qed


lemma pcm_payloads_nonempty:
  "pcm_payloads out \<noteq> [] \<Longrightarrow> \<exists>w. Msg_audio w \<in> set out"
  by (induction out rule: pcm_payloads.induct) auto

lemma turn_complete_True:
  assumes "handler_body Turn_complete c = (True, c')"
  shows "sent (sock c') =
           sent (sock c) @
           (if audio_buffer c = [] then []
            else [Msg_audio (wav_header (length (audio_buffer c)) 24000 1 2 @ audio_buffer c)]) @
           [Msg_assistant_silent]
         \<and> audio_buffer c' = []"
proof (cases "audio_buffer c = []")
  case True
  with assms send_json_True [of Msg_assistant_silent c c'] show ?thesis by simp
next
  case False
  with assms obtain c1 where
    f: "flush_buffer c = (True, c1)" and s: "send_json Msg_assistant_silent c1 = (True, c')"
    by (auto split: prod.splits bool.splits)
  from flush_buffer_True [OF f] send_json_True [OF s] False show ?thesis by simp
qed

lemma audio_step_emits:
  "sent (sock (handle_gemini_response (Audio d) c)) = sent (sock c) \<or>
   (\<exists>w. sent (sock (handle_gemini_response (Audio d) c)) = sent (sock c) @ [Msg_audio w] \<and>
        drop 44 w = audio_buffer c @ d \<and> 48000 \<le> length (drop 44 w))"
proof (cases "is_connected c \<and> length (audio_buffer c @ d) \<ge> 48000")
  case False
  then show ?thesis
    by (auto simp: handle_gemini_response_def BUFFER_TARGET_SIZE_def Let_def)
next
  case True
  let ?c1 = "c\<lparr>audio_chunk_count := audio_chunk_count c + 1,
                 audio_buffer := audio_buffer c @ d\<rparr>"
  obtain ok c2 where f: "flush_buffer ?c1 = (ok, c2)" by (cases "flush_buffer ?c1")
  show ?thesis
  proof (cases ok)
    case True
    with f flush_buffer_True [of ?c1 c2] \<open>is_connected c \<and> _\<close> show ?thesis
      by (simp add: handle_gemini_response_def BUFFER_TARGET_SIZE_def Let_def)
  next
    case False
    with f flush_buffer_False [of ?c1 c2] \<open>is_connected c \<and> _\<close> show ?thesis
      by (simp add: handle_gemini_response_def BUFFER_TARGET_SIZE_def Let_def)
  qed
qed

lemmas run_simps = handle_gemini_response_def flush_buffer_def send_json_def send_text_def
  fresh_conn_def fresh_socket_def pcm_to_wav_eq params_fit_def BUFFER_TARGET_SIZE_def
  OUTPUT_SAMPLE_RATE_def Let_def


lemma handle_stays_connected:
  assumes "is_connected c" and "\<forall>n. accepts (sock c) n"
    and "length (audio_buffer c) + length (audio_bytes [r]) \<le> 4294967259"
  shows "is_connected (handle_gemini_response r c) \<and>
         (\<forall>n. accepts (sock (handle_gemini_response r c)) n) \<and>
         length (audio_buffer (handle_gemini_response r c))
           \<le> length (audio_buffer c) + length (audio_bytes [r])"
  using assms
  by (cases r)
    (simp_all add: handle_gemini_response_def flush_buffer_def send_json_def send_text_def
      pcm_to_wav_eq params_fit_def BUFFER_TARGET_SIZE_def OUTPUT_SAMPLE_RATE_def Let_def)

lemma relay_stays_connected:
  assumes "is_connected c" and "\<forall>n. accepts (sock c) n"
    and "length (audio_buffer c) + length (audio_bytes rs) \<le> 4294967259"
  shows "is_connected (relay rs c)"
  using assms
proof (induction rs arbitrary: c)
  case Nil
  then show ?case by simp
next
  case (Cons r rs)
  have split: "audio_bytes (r # rs) = audio_bytes [r] @ audio_bytes rs"
    using audio_bytes_append [of "[r]" rs] by simp
  with Cons.prems(3) have one: "length (audio_buffer c) + length (audio_bytes [r]) \<le> 4294967259"
    by simp
  from handle_stays_connected [OF Cons.prems(1,2) one] split Cons.prems(3)
  have "is_connected (handle_gemini_response r c)"
    and "\<forall>n. accepts (sock (handle_gemini_response r c)) n"
    and "length (audio_buffer (handle_gemini_response r c)) + length (audio_bytes rs)
           \<le> 4294967259"
    by simp_all
  from Cons.IH [OF this] show ?case by simp
qed

lemma send_log_sent:
  "is_connected c \<Longrightarrow> accepts (sock c) (attempts (sock c)) \<Longrightarrow>
     sent (sock (send_log m l c)) = sent (sock c) @ [Msg_server_log m l]"
  by (simp add: send_log_def send_text_def)

lemma supervise_set [simp]: "supervise evs True = Some True"
  by (cases evs) simp_all



section \<open>The playback buffer: flushes and the turn-complete notification\<close>

text \<open>
  Claim C1. Take any sequence of responses \<open>rs\<close> followed by a turn-complete, handled
  from any state \<open>c\<close>, such that the \<^verbatim>\<open>assistant_silent\<close> (turn-complete) notification
  reaches the sink, which it does exactly when the handler is still connected after the
  turn-complete. Then the sink received, after what it held before, the messages \<open>out\<close>
  of \<open>rs\<close>, then the residual flush, then the notification, and nothing else. The
  residual flush is empty when the buffer is empty at turn-complete, and otherwise it is
  the one audio message that frames exactly the buffer, that is the bytes appended since
  the last flush (\<open>out\<close> carries all the bytes before them); the buffer is empty
  afterwards. When at least 48000 audio bytes were accumulated, an audio message stands
  before the notification, and already in \<open>out\<close> when the turn started below the
  threshold. The notification does reach the sink whenever the sink accepts every write
  and the bytes at hand stay below \<open>2^32 - 36\<close>.
\<close>

theorem flush_before_turn_complete:
  "(is_connected (relay (rs @ [Turn_complete]) c) \<longrightarrow>
      (\<exists>out residual.
         sent (sock (relay rs c)) = sent (sock c) @ out \<and>
         sent (sock (relay (rs @ [Turn_complete]) c)) =
           sent (sock c) @ out @ residual @ [Msg_assistant_silent] \<and>
         residual =
           (if audio_buffer (relay rs c) = [] then []
            else [Msg_audio (wav_header (length (audio_buffer (relay rs c))) 24000 1 2 @
                             audio_buffer (relay rs c))]) \<and>
         pcm_payloads out @ audio_buffer (relay rs c) = audio_buffer c @ audio_bytes rs \<and>
         audio_buffer (relay (rs @ [Turn_complete]) c) = [] \<and>
         (48000 \<le> length (audio_buffer c) + length (audio_bytes rs) \<longrightarrow>
            (\<exists>w. Msg_audio w \<in> set (out @ residual)) \<and>
            (length (audio_buffer c) < 48000 \<longrightarrow> (\<exists>w. Msg_audio w \<in> set out))))) \<and>
   (is_connected c \<and> (\<forall>n. accepts (sock c) n) \<and>
    length (audio_buffer c) + length (audio_bytes rs) \<le> 4294967259 \<longrightarrow>
      is_connected (relay (rs @ [Turn_complete]) c))"
proof (intro conjI impI)
  assume live: "is_connected c \<and> (\<forall>n. accepts (sock c) n) \<and>
    length (audio_buffer c) + length (audio_bytes rs) \<le> 4294967259"
  then have "length (audio_buffer c) + length (audio_bytes (rs @ [Turn_complete])) \<le> 4294967259"
    by simp
  with live show "is_connected (relay (rs @ [Turn_complete]) c)"
    by (intro relay_stays_connected) simp_all
next
  let ?c1 = "relay rs c"
  let ?c2 = "handle_gemini_response Turn_complete ?c1"
  let ?residual = "if audio_buffer ?c1 = [] then []
     else [Msg_audio (wav_header (length (audio_buffer ?c1)) 24000 1 2 @ audio_buffer ?c1)]"
  assume "is_connected (relay (rs @ [Turn_complete]) c)"
  then have c2: "is_connected ?c2" by simp
  from handle_connected [OF c2] have c1: "is_connected ?c1"
    and body: "handler_body Turn_complete ?c1 = (True, ?c2)" by simp_all
  from relay_conserves [OF c1] obtain out where
    out: "sent (sock ?c1) = sent (sock c) @ out"
      "pcm_payloads out @ audio_buffer ?c1 = audio_buffer c @ audio_bytes rs"
      "length (audio_buffer c) < 48000 \<longrightarrow> length (audio_buffer ?c1) < 48000"
    by blast
  have len: "length (pcm_payloads out) + length (audio_buffer ?c1)
               = length (audio_buffer c) + length (audio_bytes rs)"
    using out(2) by (metis length_append)
  have below: "\<exists>w. Msg_audio w \<in> set out"
    if "48000 \<le> length (audio_buffer c) + length (audio_bytes rs)"
      and "length (audio_buffer c) < 48000"
  proof -
    from that out(3) len have "pcm_payloads out \<noteq> []" by auto
    then show ?thesis by (rule pcm_payloads_nonempty)
  qed
  have some: "\<exists>w. Msg_audio w \<in> set (out @ ?residual)"
    if big: "48000 \<le> length (audio_buffer c) + length (audio_bytes rs)"
  proof (cases "audio_buffer ?c1 = []")
    case True
    with len big have "pcm_payloads out \<noteq> []" by auto
    from pcm_payloads_nonempty [OF this] show ?thesis by auto
  next
    case False
    then show ?thesis by auto
  qed
  from turn_complete_True [OF body] out(1,2) below some
  show "\<exists>out residual.
         sent (sock (relay rs c)) = sent (sock c) @ out \<and>
         sent (sock (relay (rs @ [Turn_complete]) c)) =
           sent (sock c) @ out @ residual @ [Msg_assistant_silent] \<and>
         residual =
           (if audio_buffer (relay rs c) = [] then []
            else [Msg_audio (wav_header (length (audio_buffer (relay rs c))) 24000 1 2 @
                             audio_buffer (relay rs c))]) \<and>
         pcm_payloads out @ audio_buffer (relay rs c) = audio_buffer c @ audio_bytes rs \<and>
         audio_buffer (relay (rs @ [Turn_complete]) c) = [] \<and>
         (48000 \<le> length (audio_buffer c) + length (audio_bytes rs) \<longrightarrow>
            (\<exists>w. Msg_audio w \<in> set (out @ residual)) \<and>
            (length (audio_buffer c) < 48000 \<longrightarrow> (\<exists>w. Msg_audio w \<in> set out)))"
    by (intro exI [of _ out] exI [of _ ?residual]) simp
qed

text \<open>
  One second of audio, one more byte, then the turn-complete, on a fresh connection
  whose sink accepts every write: the threshold flush, the residual flush of the one
  byte, the notification.
\<close>

theorem flush_before_turn_complete_witness:
  "is_connected (relay ([Audio (replicate 48000 0), Audio [5]] @ [Turn_complete])
      (fresh_conn (\<lambda>n. True))) \<and>
   sent (sock (relay ([Audio (replicate 48000 0), Audio [5]] @ [Turn_complete])
      (fresh_conn (\<lambda>n. True)))) =
     [Msg_audio (wav_header 48000 24000 1 2 @ replicate 48000 0),
      Msg_audio (wav_header 1 24000 1 2 @ [5]), Msg_assistant_silent]"
proof -
  have conn: "is_connected (relay ([Audio (replicate 48000 0), Audio [5]] @ [Turn_complete])
      (fresh_conn (\<lambda>n. True)))"
    by (simp add: run_simps)
  from flush_before_turn_complete
    [of "[Audio (replicate 48000 0), Audio [5]]" "fresh_conn (\<lambda>n. True)"] conn
  show ?thesis
    by (simp add: run_simps)
qed

section \<open>The container framer: sizes and stamps\<close>

text \<open>
  Claim C2, as amended. For every PCM byte string of length \<open>N \<le> 2^32 - 37\<close> and format
  parameters whose fields fit (the defaults do), \<^verbatim>\<open>pcm_to_wav\<close> returns a byte string of
  length \<open>44 + N\<close> whose RIFF file-size field (bytes 4..7, little-endian) is \<open>36 + N\<close>,
  whose data-size field (bytes 40..43) is \<open>N\<close>, and whose bytes from offset 44 onward
  are the input PCM unchanged. At \<open>N = 0\<close> this is a 44-byte header with data size 0.
\<close>

theorem pcm_to_wav_sizes:
  assumes "int (length pcm) \<le> 4294967259" and "params_fit sr ch sw"
  shows "\<exists>out. pcm_to_wav pcm sr ch sw = Inr out \<and>
           length out = 44 + length pcm \<and>
           le_field 4 4 out = 36 + int (length pcm) \<and>
           le_field 40 4 out = int (length pcm) \<and>
           drop 44 out = pcm"
proof -
  have "pcm_to_wav pcm sr ch sw = Inr (wav_header (length pcm) sr ch sw @ pcm)"
    using assms by (simp add: pcm_to_wav_eq)
  moreover have "le_field 4 4 (wav_header (length pcm) sr ch sw @ pcm) = 36 + int (length pcm)"
    using assms(1) by (simp add: header_file_size le_int_le_bytes4)
  moreover have "le_field 40 4 (wav_header (length pcm) sr ch sw @ pcm) = int (length pcm)"
    using assms(1) by (simp add: header_data_size le_int_le_bytes4)
  ultimately show ?thesis by simp
qed

text \<open>The theorem at the empty input and the defaults: a 44-byte header, data size 0.\<close>

theorem pcm_to_wav_sizes_witness:
  "\<exists>out. pcm_to_wav [] 24000 1 2 = Inr out \<and> length out = 44 \<and>
     le_field 4 4 out = 36 \<and> le_field 40 4 out = 0 \<and> drop 44 out = []"
  using pcm_to_wav_sizes [of "[]" 24000 1 2] by (simp add: params_fit_def)

text \<open>
  Claim C2 as stated ("for every PCM byte string of length N") fails at
  \<open>N = 2^32 - 36\<close>: \<open>file_size = 2^32\<close> does not fit \<^verbatim>\<open>'<I'\<close>, and the call raises.
\<close>

theorem pcm_to_wav_huge_counterexample:
  "pcm_to_wav (replicate 4294967260 0) 24000 1 2 = Inl StructError"
  by (simp add: pcm_to_wav_eq)

text \<open>
  Claim C3. Whatever the input and the format parameters, a header that \<^verbatim>\<open>pcm_to_wav\<close>
  produces carries the channel count at bytes 22..23, the sample rate at 24..27, the byte
  rate \<open>sample_rate * channels * sample_width\<close> at 28..31, the block align
  \<open>channels * sample_width\<close> at 32..33 and the bits per sample \<open>sample_width * 8\<close> at
  34..35, the positions of the uncompressed WAV layout.
\<close>

theorem pcm_to_wav_stamps:
  assumes "pcm_to_wav pcm sr ch sw = Inr out"
  shows "le_field 22 2 out = ch \<and> le_field 24 4 out = sr \<and>
         le_field 28 4 out = sr * ch * sw \<and> le_field 32 2 out = ch * sw \<and>
         le_field 34 2 out = sw * 8"
proof -
  from assms have fit: "params_fit sr ch sw"
    and out: "out = wav_header (length pcm) sr ch sw @ pcm"
    by (auto simp: pcm_to_wav_eq split: if_splits)
  from fit show ?thesis
    unfolding out params_fit_def
    by (simp add: header_channels header_sample_rate header_byte_rate header_block_align
        header_bits le_int_le_bytes4 le_int_le_bytes2)
qed

text \<open>The defaults on a two-byte input: 1 channel, 24000 Hz, 48000 bytes/s, align 2, 16 bits.\<close>

theorem pcm_to_wav_stamps_witness:
  "pcm_to_wav [1, 2] 24000 1 2 = Inr (wav_header 2 24000 1 2 @ [1, 2]) \<and>
   le_field 22 2 (wav_header 2 24000 1 2 @ [1, 2]) = 1 \<and>
   le_field 24 4 (wav_header 2 24000 1 2 @ [1, 2]) = 24000 \<and>
   le_field 28 4 (wav_header 2 24000 1 2 @ [1, 2]) = 48000 \<and>
   le_field 32 2 (wav_header 2 24000 1 2 @ [1, 2]) = 2 \<and>
   le_field 34 2 (wav_header 2 24000 1 2 @ [1, 2]) = 16"
proof -
  have r: "pcm_to_wav [1, 2] 24000 1 2 = Inr (wav_header 2 24000 1 2 @ [1, 2])"
    by (simp add: pcm_to_wav_eq params_fit_def numeral_2_eq_2)
  from pcm_to_wav_stamps [OF r] r show ?thesis by simp
qed

section \<open>Interruption\<close>

text \<open>
  Claim C4, as amended. When the remote stream delivers an event with the interrupted
  flag set (and the shutdown event is not set), the receive loop asks for exactly one
  callback, \<^verbatim>\<open>interrupted\<close>, and reads neither the parts nor the turn-complete flag of
  that event; the handler writes the \<^verbatim>\<open>interrupted\<close> message to the sink when the
  connection is up and the sink accepts the write, and it leaves the playback buffer as
  it was: the bytes accumulated before the interruption stay buffered for the next flush.
\<close>

theorem interrupted_relayed_buffer_kept:
  assumes "interrupted content" and "\<not> shutdown_event s"
  shows "receive_step (Response (Some content)) s = (Continue, [Callback Interrupted], s) \<and>
         audio_buffer (handle_gemini_response Interrupted c) = audio_buffer c \<and>
         (is_connected c \<and> accepts (sock c) (attempts (sock c)) \<longrightarrow>
            sent (sock (handle_gemini_response Interrupted c)) = sent (sock c) @ [Msg_interrupted])"
  using assms
  by (simp add: receive_step_def on_response_def handle_gemini_response_def send_json_def
      send_text_def)

text \<open>
  An interrupted event that also carries a part and the turn-complete flag, and the
  handler interrupted with two bytes buffered.
\<close>

theorem interrupted_relayed_buffer_kept_witness:
  "receive_step (Response (Some (Server_content True (Some [Part (Some [9]) None]) True)))
     fresh_session = (Continue, [Callback Interrupted], fresh_session) \<and>
   audio_buffer (handle_gemini_response Interrupted
     (relay [Audio [1, 2]] (fresh_conn (\<lambda>n. True)))) = [1, 2] \<and>
   sent (sock (handle_gemini_response Interrupted
     (relay [Audio [1, 2]] (fresh_conn (\<lambda>n. True))))) = [Msg_interrupted]"
  using interrupted_relayed_buffer_kept
    [of "Server_content True (Some [Part (Some [9]) None]) True" fresh_session
        "relay [Audio [1, 2]] (fresh_conn (\<lambda>n. True))"]
  by (simp add: fresh_session_def run_simps)

text \<open>
  Claim C4 as stated fails: two bytes arrive, the turn is interrupted, and the next
  turn-complete flushes those two bytes to the sink.
\<close>

theorem interrupted_discards_counterexample:
  "sent (sock (snd (receive_responses_task
     [Response (Some (Server_content False (Some [Part (Some [1, 2]) None]) False)),
      Response (Some (Server_content True None False)),
      Response (Some (Server_content False None True))]
     fresh_session (fresh_conn (\<lambda>n. True))))) =
   [Msg_interrupted, Msg_audio (wav_header 2 24000 1 2 @ [1, 2]), Msg_assistant_silent]"
  by (simp add: receive_step_def on_response_def part_callbacks_def fresh_session_def
      run_simps numeral_2_eq_2)

section \<open>A closed remote connection\<close>

text \<open>
  Claim C5, as amended. When an error with the connection-closed signature is detected
  in the send loop, or in the receive loop on an error text without a cancellation
  marker, the loop sets the shutdown event and is left, after asking for one log of
  level \<^verbatim>\<open>error\<close> and for no callback: the sink is written a \<^verbatim>\<open>server_log\<close> message (when
  the connection is up and the sink accepts it), and no error relay event. With the
  event set, a step of either loop leaves the loop without a callback, and the
  coordinator leaves its loop at once and runs the teardown, which ends by closing the
  remote connection.
\<close>

theorem connection_closed_is_logged:
  assumes "closed_signature e" and "\<not> shutdown_event s"
  shows "(audio_queue s = Some d # q \<longrightarrow>
            send_audio_step False (Send_raises e) s =
              (Break, [Log (cross_mark @ '' Gemini connection closed'') ''error''],
               s\<lparr>audio_queue := q, shutdown_event := True\<rparr>)) \<and>
         (\<not> py_in ''cancelled'' (lower e) \<longrightarrow>
            receive_step (Receive_raises e) s =
              (Break, [Log (cross_mark @ '' Gemini connection lost'') ''error''],
               s\<lparr>shutdown_event := True\<rparr>)) \<and>
         (is_connected c \<and> accepts (sock c) (attempts (sock c)) \<longrightarrow>
            sent (sock (deliver [Log m ''error''] c)) =
              sent (sock c) @ [Msg_server_log m ''error'']) \<and>
         send_audio_step wc r (s\<lparr>shutdown_event := True\<rparr>) =
           (Break, [], s\<lparr>shutdown_event := True\<rparr>) \<and>
         receive_step ev (s\<lparr>shutdown_event := True\<rparr>) =
           (Break, [], s\<lparr>shutdown_event := True\<rparr>) \<and>
         session_end evs True send_end receive_end =
           Some (fst (teardown send_end receive_end) @ [Close_connection],
                 snd (teardown send_end receive_end))"
  using assms
  by (simp add: send_audio_step_def send_audio_iteration_def receive_step_def
      session_end_def send_log_sent split: prod.splits)

text \<open>A closed connection met by the send loop, one met by the receive loop, and a log delivered.\<close>

theorem connection_closed_is_logged_witness:
  "send_audio_step False (Send_raises ''ConnectionClosed'')
     (fresh_session\<lparr>audio_queue := [Some [1], Some [2]]\<rparr>) =
     (Break, [Log (cross_mark @ '' Gemini connection closed'') ''error''],
      fresh_session\<lparr>audio_queue := [Some [2]], shutdown_event := True\<rparr>) \<and>
   receive_step (Receive_raises ''received 1008 (policy violation)'') fresh_session =
     (Break, [Log (cross_mark @ '' Gemini connection lost'') ''error''],
      fresh_session\<lparr>shutdown_event := True\<rparr>) \<and>
   sent (sock (deliver [Log ''x'' ''error''] (fresh_conn (\<lambda>n. True)))) =
     [Msg_server_log ''x'' ''error'']"
  using connection_closed_is_logged
    [of "''ConnectionClosed''" "fresh_session\<lparr>audio_queue := [Some [1], Some [2]]\<rparr>"
        "[1]" "[Some [2]]" "fresh_conn (\<lambda>n. True)" "''x''"]
    connection_closed_is_logged
    [of "''received 1008 (policy violation)''" fresh_session]
  by (simp add: closed_signature_def fresh_session_def fresh_conn_def fresh_socket_def
      lower_def lower_char_def)

text \<open>
  Claim C5 as stated fails: the send loop meets a closed connection, both tasks return,
  the session ends without an exception, and the sink has received two log messages
  and no error message.
\<close>

theorem connection_closed_no_error_event_counterexample:
  "send_audio_step False (Send_raises ''ConnectionClosed'')
     (fresh_session\<lparr>audio_queue := [Some [1]]\<rparr>) =
     (Break, [Log (cross_mark @ '' Gemini connection closed'') ''error''],
      fresh_session\<lparr>audio_queue := [], shutdown_event := True\<rparr>) \<and>
   session_end [] True Returned Returned =
     Some ([Set_shutdown, Cancel_task Send_task, Cancel_task Receive_task,
            Await_task Send_task, Await_task Receive_task, Close_connection], None) \<and>
   sent (sock (run_gemini_end None
     (deliver [Log (cross_mark @ '' Gemini connection closed'') ''error'']
        (fresh_conn (\<lambda>n. True))))) =
     [Msg_server_log (cross_mark @ '' Gemini connection closed'') ''error'',
      Msg_server_log ''Gemini session ended'' ''warn'']"
  by (simp add: send_audio_step_def send_audio_iteration_def closed_signature_def
      fresh_session_def session_end_def teardown_def await_swallowing_def run_gemini_end_def
      send_log_def send_text_def fresh_conn_def fresh_socket_def)

section \<open>A missing credential\<close>

text \<open>
  Claim C6. With an empty \<^verbatim>\<open>GEMINI_API_KEY\<close> the endpoint creates no queue, no shutdown
  event and no task for a Gemini session; it attempts exactly one write, the first
  after the accept, and never a second; and when the sink accepts that write, the sink
  has received the configuration error and the socket is closed with code 1011. With a
  key, the session is created.
\<close>

theorem missing_key_refuses:
  "\<not> creates_session (websocket_endpoint_open [] ws) \<and>
   attempts (socket_of (websocket_endpoint_open [] ws)) = Suc (attempts ws) \<and>
   (accepts ws (attempts ws) \<longrightarrow>
      websocket_endpoint_open [] ws =
        Config_refused
          (ws\<lparr>accepted := True,
              sent := sent ws @ [Msg_error ''GEMINI_API_KEY not configured on server''],
              attempts := Suc (attempts ws),
              close_frame := Some (1011, ''API key not configured'')\<rparr>)) \<and>
   (key \<noteq> [] \<longrightarrow> creates_session (websocket_endpoint_open key ws))"
  by (simp add: websocket_endpoint_open_def send_text_def send_json_def Let_def
      split: prod.splits)

text \<open>A fresh socket without a key, and with one.\<close>

theorem missing_key_refuses_witness:
  "websocket_endpoint_open [] (fresh_socket (\<lambda>n. True)) =
     Config_refused
       \<lparr>accepted = True, sent = [Msg_error ''GEMINI_API_KEY not configured on server''],
        attempts = 1, accepts = (\<lambda>n. True),
        close_frame = Some (1011, ''API key not configured'')\<rparr> \<and>
   creates_session (websocket_endpoint_open ''secret'' (fresh_socket (\<lambda>n. True)))"
  using missing_key_refuses [of "fresh_socket (\<lambda>n. True)" "''secret''"]
  by (simp add: fresh_socket_def)

section \<open>The outbound send loop\<close>

text \<open>
  Claim C7. A step of the send loop whose shutdown event is not set: on an empty queue
  (the timeout) it changes nothing and goes on, and the next step tests the shutdown
  event first and leaves the loop when it is set; on the sentinel it leaves the loop,
  with nothing logged and the event untouched; on a send error with the connection-closed
  signature it sets the shutdown event and leaves the loop; on any other send error it
  logs the error and goes on. In both error cases the chunk has left the queue and was
  not handed to the remote session, so it is dropped and never sent again. A send that
  returns hands the chunk over and goes on.
\<close>

theorem send_loop_policy:
  assumes "\<not> shutdown_event s"
  shows "(audio_queue s = [] \<longrightarrow> send_audio_step False r s = (Continue, [], s)) \<and>
         send_audio_step wc r (s\<lparr>shutdown_event := True\<rparr>) =
           (Break, [], s\<lparr>shutdown_event := True\<rparr>) \<and>
         (audio_queue s = None # q \<longrightarrow>
            send_audio_step False r s = (Break, [], s\<lparr>audio_queue := q\<rparr>)) \<and>
         (audio_queue s = Some d # q \<and> closed_signature e \<longrightarrow>
            send_audio_step False (Send_raises e) s =
              (Break, [Log (cross_mark @ '' Gemini connection closed'') ''error''],
               s\<lparr>audio_queue := q, shutdown_event := True\<rparr>)) \<and>
         (audio_queue s = Some d # q \<and> \<not> closed_signature e \<longrightarrow>
            send_audio_step False (Send_raises e) s =
              (Continue, [Log (cross_mark @ '' Error sending audio: '' @ e) ''error''],
               s\<lparr>audio_queue := q\<rparr>)) \<and>
         (audio_queue s = Some d # q \<longrightarrow>
            send_audio_step False Send_ok s =
              (Continue, [],
               s\<lparr>audio_queue := q, remote_in := remote_in s @ [d],
                 chunks_sent := chunks_sent s + 1\<rparr>))"
  using assms by (simp add: send_audio_step_def send_audio_iteration_def)

text \<open>The four cases of the claim, each on a small queue.\<close>

theorem send_loop_policy_witness:
  "send_audio_step False Send_ok fresh_session = (Continue, [], fresh_session) \<and>
   send_audio_step False Send_ok (fresh_session\<lparr>audio_queue := [None, Some [1]]\<rparr>) =
     (Break, [], fresh_session\<lparr>audio_queue := [Some [1]]\<rparr>) \<and>
   send_audio_step False (Send_raises ''code 1008'')
       (fresh_session\<lparr>audio_queue := [Some [1], Some [2]]\<rparr>) =
     (Break, [Log (cross_mark @ '' Gemini connection closed'') ''error''],
      fresh_session\<lparr>audio_queue := [Some [2]], shutdown_event := True\<rparr>) \<and>
   send_audio_step False (Send_raises ''timeout'')
       (fresh_session\<lparr>audio_queue := [Some [1], Some [2]]\<rparr>) =
     (Continue, [Log (cross_mark @ '' Error sending audio: timeout'') ''error''],
      fresh_session\<lparr>audio_queue := [Some [2]]\<rparr>)"
  using send_loop_policy [of fresh_session Send_ok]
    send_loop_policy [of "fresh_session\<lparr>audio_queue := [None, Some [1]]\<rparr>" Send_ok _ "[Some [1]]"]
    send_loop_policy [of "fresh_session\<lparr>audio_queue := [Some [1], Some [2]]\<rparr>" _ _ "[Some [2]]"
        "[1]" "''code 1008''"]
    send_loop_policy [of "fresh_session\<lparr>audio_queue := [Some [1], Some [2]]\<rparr>" _ _ "[Some [2]]"
        "[1]" "''timeout''"]
  by (simp add: fresh_session_def closed_signature_def)

section \<open>The shutdown event and the teardown\<close>




section \<open>Conservation of the audio bytes\<close>

text \<open>
  Claim C9, as amended. After any sequence of responses at whose end the handler is
  still connected (no write to the sink and no framing has failed), the PCM payloads of
  the audio messages it emitted, in order, followed by the buffer, are the buffer it
  started with followed by all audio bytes received, in arrival order: no byte is lost,
  duplicated or reordered. Every emitted audio message carries at least one PCM byte.
  Whatever the state, the handler called with audio emits nothing or one audio message
  that carries the whole buffer, at least 48000 bytes.
\<close>

theorem audio_bytes_conserved:
  assumes "is_connected (relay rs c)"
  shows "(\<exists>out. sent (sock (relay rs c)) = sent (sock c) @ out \<and>
            pcm_payloads out @ audio_buffer (relay rs c) = audio_buffer c @ audio_bytes rs \<and>
            (\<forall>w. Msg_audio w \<in> set out \<longrightarrow> 1 \<le> length (drop 44 w))) \<and>
         (sent (sock (handle_gemini_response (Audio d) c0)) = sent (sock c0) \<or>
          (\<exists>w. sent (sock (handle_gemini_response (Audio d) c0)) = sent (sock c0) @ [Msg_audio w] \<and>
               drop 44 w = audio_buffer c0 @ d \<and> 48000 \<le> length (drop 44 w)))"
  using relay_conserves [OF assms] audio_step_emits [of d c0] by blast

text \<open>Two bytes, a turn-complete and a third byte on a fresh connection.\<close>

theorem audio_bytes_conserved_witness:
  "is_connected (relay [Audio [1, 2], Turn_complete, Audio [3]] (fresh_conn (\<lambda>n. True))) \<and>
   (\<exists>out. sent (sock (relay [Audio [1, 2], Turn_complete, Audio [3]] (fresh_conn (\<lambda>n. True))))
            = out \<and>
      pcm_payloads out @
        audio_buffer (relay [Audio [1, 2], Turn_complete, Audio [3]] (fresh_conn (\<lambda>n. True)))
        = [1, 2, 3])"
proof -
  have conn: "is_connected (relay [Audio [1, 2], Turn_complete, Audio [3]] (fresh_conn (\<lambda>n. True)))"
    by (simp add: run_simps)
  from audio_bytes_conserved [OF conn] conn show ?thesis
    by (simp add: fresh_conn_def fresh_socket_def)
qed

text \<open>
  Claim C9 as stated ("any sequence of audio and turn-complete events") fails in two
  ways. When the write of a flush raises, the handler marks the connection closed and
  ignores what follows: of the bytes 1 and 2 only 1 is kept. And a chunk of \<open>2^32 - 36\<close>
  bytes cannot be framed, although the sink accepts every write: the handler marks the
  connection closed, and the byte that follows is lost.
\<close>

theorem audio_bytes_lost_counterexample:
  "pcm_payloads (sent (sock (relay [Audio [1], Turn_complete, Audio [2]]
       (fresh_conn (\<lambda>n. False))))) @
     audio_buffer (relay [Audio [1], Turn_complete, Audio [2]] (fresh_conn (\<lambda>n. False)))
     = [1] \<and>
   audio_bytes [Audio [1], Turn_complete, Audio [2]] = [1, 2] \<and>
   pcm_payloads (sent (sock (relay [Audio (replicate 4294967260 0), Audio [1]]
       (fresh_conn (\<lambda>n. True))))) @
     audio_buffer (relay [Audio (replicate 4294967260 0), Audio [1]] (fresh_conn (\<lambda>n. True)))
     = replicate 4294967260 0 \<and>
   audio_bytes [Audio (replicate 4294967260 0), Audio [1]] = replicate 4294967260 0 @ [1]"
  by (simp add: run_simps)

section \<open>The container framer: totality\<close>

text \<open>
  Claim C10. \<^verbatim>\<open>pcm_to_wav\<close> returns normally for every input of at most \<open>2^32 - 37\<close>
  bytes whose parameters fit their 16- and 32-bit fields, and for every longer input the
  pack of \<open>file_size = 36 + len(pcm_data)\<close> fails: the function raises, whatever the
  parameters, and no size field wraps.
\<close>

theorem pcm_to_wav_total_iff:
  "(int (length pcm) \<le> 2 ^ 32 - 37 \<and> params_fit sr ch sw \<longrightarrow>
      (\<exists>out. pcm_to_wav pcm sr ch sw = Inr out)) \<and>
   (int (length pcm) > 2 ^ 32 - 37 \<longrightarrow> pcm_to_wav pcm sr ch sw = Inl StructError)"
  by (simp add: pcm_to_wav_eq)

theorem pcm_to_wav_total_iff_witness:
  "(\<exists>out. pcm_to_wav [7] 24000 1 2 = Inr out) \<and>
   pcm_to_wav (replicate 4294967260 1) 16000 2 2 = Inl StructError"
  using pcm_to_wav_total_iff [of "[7]" 24000 1 2]
    pcm_to_wav_total_iff [of "replicate 4294967260 1" 16000 2 2]
  by (simp add: params_fit_def)

end
